theory Spec2Isabelle
  imports Complex_Main "HOL-Library.AList"
begin

section \<open>Python values used by the agents\<close>

text \<open>
  The embedding, memory and feedback agents are Python classes. Their data is modelled as
  follows: a Python \<open>int\<close> is an \<open>int\<close>; a Python \<open>float\<close> is an exact rational
  (\<open>rat\<close>), so rounding is not modelled; a \<open>str\<close> is a \<open>string\<close>, read as the list of
  its code points, each below 256; a \<open>dict\<close> is an association list in insertion order with
  distinct keys; a raised exception is the left summand of a sum type.
\<close>

datatype py_error = ValueError | ZeroDivisionError

text \<open>
  Heterogeneous values stored in audit entries. \<open>PFmt label args\<close> stands for a formatted
  explanatory text (an f-string): its template is named by \<open>label\<close> and \<open>args\<close> are the
  interpolated values; the rendered characters are not modelled.
\<close>

datatype pyval =
    PNone
  | PBool bool
  | PInt int
  | PFloat rat
  | PStr string
  | PFmt string "pyval list"
  | PList "pyval list"
  | PDict "(string \<times> pyval) list"

type_synonym pydict = "(string \<times> pyval) list"

definition dict_get :: "('k \<times> 'v) list \<Rightarrow> 'k \<Rightarrow> 'v \<Rightarrow> 'v" where
  "dict_get d k dflt = (case map_of d k of None \<Rightarrow> dflt | Some v \<Rightarrow> v)"


text \<open>\<open>range(start, stop, step)\<close>: a zero step raises \<open>ValueError\<close>.\<close>

definition py_range :: "int \<Rightarrow> int \<Rightarrow> int \<Rightarrow> py_error + int list" where
  "py_range start stop step =
     (if step = 0 then Inl ValueError
      else if 0 < step then
        Inr (map (\<lambda>j. start + int j * step) [0 ..< nat ((stop - start + step - 1) div step)])
      else
        Inr (map (\<lambda>j. start + int j * step) [0 ..< nat ((start - stop - step - 1) div (- step))]))"

text \<open>\<open>xs[start:stop]\<close>: a negative index counts from the end, and both ends are clipped.\<close>

definition slice_index :: "int \<Rightarrow> int \<Rightarrow> int" where
  "slice_index n k = (if k < 0 then max (k + n) 0 else min k n)"

definition py_slice :: "'a list \<Rightarrow> int \<Rightarrow> int \<Rightarrow> 'a list" where
  "py_slice xs start stop =
     (let n = int (length xs); a = slice_index n start; b = slice_index n stop
      in take (nat (b - a)) (drop (nat a) xs))"

text \<open>\<open>str.isspace\<close> on the code points below 256.\<close>

definition isspace :: "char \<Rightarrow> bool" where
  "isspace c = (c \<in> set [CHR 0x09, CHR 0x0A, CHR 0x0B, CHR 0x0C, CHR 0x0D,
                          CHR 0x1C, CHR 0x1D, CHR 0x1E, CHR 0x1F, CHR 0x20,
                          CHR 0x85, CHR 0xA0])"



text \<open>\<open>str.split()\<close> with no argument: the maximal runs of characters that are not
  whitespace, in order. \<open>cur\<close> is the token being read.\<close>

fun split_from :: "string \<Rightarrow> string \<Rightarrow> string list" where
  "split_from cur [] = (if cur = [] then [] else [cur])"
| "split_from cur (c # cs) =
     (if isspace c then (if cur = [] then split_from [] cs else cur # split_from [] cs)
      else split_from (cur @ [c]) cs)"

definition py_split :: "string \<Rightarrow> string list" where
  "py_split s = split_from [] s"

text \<open>\<open>sep.join(words)\<close>.\<close>

fun join :: "string \<Rightarrow> string list \<Rightarrow> string" where
  "join sep [] = []"
| "join sep [w] = w"
| "join sep (w # v # ws) = w @ sep @ join sep (v # ws)"

text \<open>\<open>str(i)\<close> for an integer, in decimal.\<close>

function str_nat :: "nat \<Rightarrow> string" where
  "str_nat n =
     (if n < 10 then [''0123456789'' ! n]
      else str_nat (n div 10) @ [''0123456789'' ! (n mod 10)])"
  by pat_completeness auto
termination
  by (relation "measure id") auto

definition py_str :: "int \<Rightarrow> string" where
  "py_str i = (if i < 0 then CHR ''-'' # str_nat (nat (- i)) else str_nat (nat i))"

section \<open>The embedding agent\<close>



subsection \<open>chunk_long_text\<close>

text \<open>One emitted chunk: the dictionary with the keys \<open>text\<close>, \<open>position\<close> and
  \<open>chunk_id\<close>.\<close>

record chunk =
  chunk_text :: string
  position :: int
  chunk_id :: string

text \<open>The body of the loop, for the start index \<open>i\<close>.\<close>

definition chunk_at :: "string list \<Rightarrow> int \<Rightarrow> int \<Rightarrow> chunk" where
  "chunk_at words chunk_size i =
     (let chunk_words = py_slice words i (i + chunk_size)
      in \<lparr> chunk_text = join '' '' chunk_words,
           position = i,
           chunk_id = ''chunk_'' @ py_str i \<rparr>)"

text \<open>The method has no \<open>try\<close>: the \<open>ValueError\<close> of \<open>range\<close> leaves it.\<close>

definition chunk_long_text :: "string \<Rightarrow> int \<Rightarrow> int \<Rightarrow> py_error + chunk list" where
  "chunk_long_text text chunk_size overlap =
     (let words = py_split text in
      case py_range 0 (int (length words)) (chunk_size - overlap) of
        Inl e \<Rightarrow> Inl e
      | Inr starts \<Rightarrow> Inr (map (chunk_at words chunk_size) starts))"

text \<open>The call with the default arguments \<open>chunk_size = 512\<close>, \<open>overlap = 100\<close>.\<close>

definition chunk_long_text_default :: "string \<Rightarrow> py_error + chunk list" where
  "chunk_long_text_default text = chunk_long_text text 512 100"

subsection \<open>create_sparse_embedding\<close>





section \<open>The memory agent\<close>

record MemoryAgent =
  qdrant_endpoint :: "string option"
  qdrant_api_key :: "string option"
  qdrant_cluster_id :: "string option"
  dense_collection :: string
  sparse_collection :: string
  hybrid_collection :: string
  audit_trail :: "pydict list"

definition MemoryAgent_init :: "(string \<times> string) list \<Rightarrow> MemoryAgent" where
  "MemoryAgent_init qdrant_config =
     \<lparr> qdrant_endpoint = map_of qdrant_config ''endpoint'',
       qdrant_api_key = map_of qdrant_config ''api_key'',
       qdrant_cluster_id = map_of qdrant_config ''cluster_id'',
       dense_collection = ''clinical_dense_embeddings'',
       sparse_collection = ''clinical_sparse_embeddings'',
       hybrid_collection = ''clinical_hybrid_search'',
       audit_trail = [] \<rparr>"

text \<open>
  Every method reads the clock through \<open>datetime.now().isoformat()\<close>; the readings are
  parameters (\<open>now\<close>). Each method returns the agent after the call and the method's result.
\<close>

subsection \<open>store_embedding\<close>

definition store_embedding ::
  "MemoryAgent \<Rightarrow> string \<Rightarrow> string \<Rightarrow> string \<Rightarrow> string \<Rightarrow> rat list \<Rightarrow> (int \<times> rat) list
     \<Rightarrow> pydict \<Rightarrow> MemoryAgent \<times> bool" where
  "store_embedding self now_stored now_logged embedding_id patient_id dense_vector
       sparse_vector metadata =
     (let reasoning = PFmt ''EMBEDDING STORAGE REASONING'' [];
          storage_entry =
            [(''embedding_id'', PStr embedding_id),
             (''patient_id'', PStr patient_id),
             (''dense_vector_dims'', PInt (int (length dense_vector))),
             (''sparse_vector_terms'', PInt (int (length sparse_vector))),
             (''metadata'', PDict metadata),
             (''stored_at'', PStr now_stored),
             (''reasoning'', reasoning)]
      in (self\<lparr>audit_trail := audit_trail self @
              [[(''operation'', PStr ''store_embedding''),
                (''entry'', PDict storage_entry),
                (''timestamp'', PStr now_logged)]]\<rparr>,
          True))"

subsection \<open>hybrid_search\<close>

text \<open>The local dictionary \<open>search_result\<close>; its \<open>results\<close> are never filled.\<close>

definition search_result ::
  "string \<Rightarrow> rat list \<Rightarrow> (int \<times> rat) list \<Rightarrow> pyval \<Rightarrow> int \<Rightarrow> pydict" where
  "search_result patient_id query_dense query_sparse filters top_k =
     [(''patient_id'', PStr patient_id),
      (''query_type'', PStr ''hybrid''),
      (''dense_weight'', PFloat (6 / 10)),
      (''sparse_weight'', PFloat (4 / 10)),
      (''filters_applied'', filters),
      (''top_k'', PInt top_k),
      (''results'', PList []),
      (''search_reasoning'',
         PFmt ''HYBRID SEARCH REASONING''
           [PInt (int (length query_dense)), PInt (int (length query_sparse))])]"

definition hybrid_search ::
  "MemoryAgent \<Rightarrow> string \<Rightarrow> string \<Rightarrow> rat list \<Rightarrow> (int \<times> rat) list \<Rightarrow> pyval \<Rightarrow> int
     \<Rightarrow> MemoryAgent \<times> pyval" where
  "hybrid_search self now patient_id query_dense query_sparse filters top_k =
     (self\<lparr>audit_trail := audit_trail self @
          [[(''operation'', PStr ''hybrid_search''),
            (''patient_id'', PStr patient_id),
            (''query_type'', PStr ''hybrid''),
            (''timestamp'', PStr now),
            (''top_k'', PInt top_k)]]\<rparr>,
      dict_get (search_result patient_id query_dense query_sparse filters top_k)
        ''results'' (PList []))"

subsection \<open>reinforce_memory\<close>

definition update_entry :: "string \<Rightarrow> string \<Rightarrow> string \<Rightarrow> rat \<Rightarrow> pydict" where
  "update_entry now embedding_id feedback_type confidence_boost =
     [(''embedding_id'', PStr embedding_id),
      (''feedback_type'', PStr feedback_type),
      (''confidence_boost'', PFloat confidence_boost),
      (''operation'', PStr ''memory_reinforcement''),
      (''timestamp'', PStr now),
      (''reasoning'',
         PFmt ''MEMORY REINFORCEMENT REASONING''
           [PStr feedback_type, PFloat confidence_boost, PFloat confidence_boost,
            PFloat (confidence_boost * (5 / 10)), PFloat (confidence_boost * (8 / 10))])]"

definition reinforce_memory ::
  "MemoryAgent \<Rightarrow> string \<Rightarrow> string \<Rightarrow> string \<Rightarrow> rat \<Rightarrow> MemoryAgent \<times> bool" where
  "reinforce_memory self now embedding_id feedback_type confidence_boost =
     (self\<lparr>audit_trail := audit_trail self @
          [update_entry now embedding_id feedback_type confidence_boost]\<rparr>,
      True)"

section \<open>The feedback agent\<close>

text \<open>
  Modelled from the spec: the enumeration \<open>FeedbackType\<close> and the class \<open>DoctorFeedback\<close>
  are declared in \<open>utils.models\<close>, which is not among the sources. The three outcomes are
  those of the specification's feedback event (Correct, Partial, Wrong), under the names
  the feedback agent uses; the strings of \<open>.value\<close> are the ones the feedback agent's
  report compares against. Only the fields the agent reads are kept.
\<close>

datatype FeedbackType = CORRECT | PARTIAL | WRONG

fun FeedbackType_value :: "FeedbackType \<Rightarrow> string" where
  "FeedbackType_value CORRECT = ''correct''"
| "FeedbackType_value PARTIAL = ''partial''"
| "FeedbackType_value WRONG = ''wrong''"

record DoctorFeedback =
  report_id :: string
  doctor_name :: string
  doctor_id :: string
  voice_recording_path :: string
  feedback_type :: FeedbackType

record FeedbackAgent =
  memory_agent :: MemoryAgent
  feedback_history :: "pydict list"

text \<open>The table of the deltas, looked up with the default \<open>0.0\<close>.\<close>

definition confidence_boost_of :: "FeedbackType \<Rightarrow> rat" where
  "confidence_boost_of ft =
     dict_get [(CORRECT, 2 / 10), (PARTIAL, 1 / 10), (WRONG, - (3 / 10))] ft 0"

text \<open>The loop over the identifiers; \<open>clock i\<close> is the clock's reading in the call for the
  identifier at index \<open>i\<close>.\<close>

fun reinforce_each ::
  "MemoryAgent \<Rightarrow> (nat \<Rightarrow> string) \<Rightarrow> nat \<Rightarrow> string \<Rightarrow> rat \<Rightarrow> string list \<Rightarrow> MemoryAgent" where
  "reinforce_each m clock i ft boost [] = m"
| "reinforce_each m clock i ft boost (embedding_id # ids) =
     reinforce_each (fst (reinforce_memory m (clock i) embedding_id ft boost))
       clock (Suc i) ft boost ids"

definition reinforce_memory_from_feedback ::
  "FeedbackAgent \<Rightarrow> (nat \<Rightarrow> string) \<Rightarrow> DoctorFeedback \<Rightarrow> string list \<Rightarrow> FeedbackAgent \<times> bool" where
  "reinforce_memory_from_feedback self clock feedback embedding_ids =
     (let confidence_boost = confidence_boost_of (feedback_type feedback)
      in (self\<lparr>memory_agent :=
                 reinforce_each (memory_agent self) clock 0
                   (FeedbackType_value (feedback_type feedback)) confidence_boost
                   embedding_ids\<rparr>,
          True))"

section \<open>Notions used to state the properties\<close>

text \<open>A token: a non-empty string without whitespace.\<close>

definition is_token :: "string \<Rightarrow> bool" where
  "is_token w = (w \<noteq> [] \<and> list_all (\<lambda>c. \<not> isspace c) w)"

text \<open>The number of starts \<open>0, step, 2 * step, ...\<close> below \<open>len\<close>, for a positive step.\<close>

definition chunk_count :: "nat \<Rightarrow> int \<Rightarrow> nat" where
  "chunk_count len step = nat ((int len + step - 1) div step)"


subsection \<open>Example inputs\<close>


text \<open>A clock, a feedback with a given outcome, and a feedback agent with an empty memory.\<close>

definition demo_clock :: "nat \<Rightarrow> string" where
  "demo_clock i = ''2024-01-01T00:00:0'' @ py_str (int i)"

definition demo_feedback :: "FeedbackType \<Rightarrow> DoctorFeedback" where
  "demo_feedback ft =
     \<lparr> report_id = ''r1'', doctor_name = ''Dr A'', doctor_id = ''d1'',
       voice_recording_path = ''fb.wav'', feedback_type = ft \<rparr>"

definition demo_agent :: FeedbackAgent where
  "demo_agent = \<lparr> memory_agent = MemoryAgent_init [], feedback_history = [] \<rparr>"

section \<open>Properties\<close>

subsection \<open>Splitting and joining\<close>

lemma split_from_tokens:
  "list_all (\<lambda>c. \<not> isspace c) cur \<Longrightarrow> list_all is_token (split_from cur s)"
  by (induction s arbitrary: cur) (auto simp: is_token_def)

lemma py_split_tokens: "list_all is_token (py_split s)"
  by (simp add: py_split_def split_from_tokens)

lemma split_from_nospace:
  "list_all (\<lambda>c. \<not> isspace c) w \<Longrightarrow> split_from cur (w @ s) = split_from (cur @ w) s"
  by (induction w arbitrary: cur) auto

lemma isspace_space: "isspace CHR '' ''"
  by (simp add: isspace_def)

lemma split_from_join:
  "list_all is_token ws \<Longrightarrow> is_token w \<Longrightarrow> split_from [] (join '' '' (w # ws)) = w # ws"
proof (induction ws arbitrary: w)
  case Nil
  then show ?case
    using split_from_nospace [of w "[]" "[]"] by (simp add: is_token_def)
next
  case (Cons v ws)
  have "split_from [] (w @ '' '' @ join '' '' (v # ws)) = split_from w ('' '' @ join '' '' (v # ws))"
    using Cons.prems split_from_nospace [of w "[]"] by (simp add: is_token_def)
  also have "\<dots> = w # split_from [] (join '' '' (v # ws))"
    using Cons.prems by (simp add: is_token_def isspace_space)
  also have "\<dots> = w # v # ws"
    using Cons.IH [of v] Cons.prems by simp
  finally show ?case by simp
qed

lemma py_split_join: "list_all is_token ws \<Longrightarrow> py_split (join '' '' ws) = ws"
  by (cases ws) (simp_all add: py_split_def split_from_join)

lemma split_from_Nil_iff:
  "split_from cur s = [] \<longleftrightarrow> cur = [] \<and> list_all isspace s"
  by (induction s arbitrary: cur) auto

lemma py_split_Nil_iff: "py_split s = [] \<longleftrightarrow> list_all isspace s"
  by (simp add: py_split_def split_from_Nil_iff)

lemma py_slice_window:
  assumes "0 \<le> a" and "0 \<le> n"
  shows "py_slice xs a (a + n) = take (nat n) (drop (nat a) xs)"
proof (cases "a + n \<le> int (length xs)")
  case True
  have "nat (a + n - a) = nat n" by simp
  with True assms show ?thesis
    by (simp add: py_slice_def slice_index_def Let_def min_def)
next
  case False
  show ?thesis
  proof (cases "a \<le> int (length xs)")
    case True
    have "length (drop (nat a) xs) \<le> nat n"
      using False True assms by simp
    moreover have "length (drop (nat a) xs) \<le> nat (int (length xs) - a)"
      using True assms by simp
    ultimately show ?thesis
      using False True assms by (simp add: py_slice_def slice_index_def Let_def min_def)
  next
    case False
    then show ?thesis
      using assms by (simp add: py_slice_def slice_index_def Let_def min_def)
  qed
qed

lemma concat_take_windows:
  "concat (map (\<lambda>j. take s (drop (j * s) xs)) [0..<m]) = take (m * s) xs"
proof (induction m)
  case 0
  then show ?case by simp
next
  case (Suc m)
  then show ?case by (simp add: take_add [symmetric] add.commute)
qed

lemma ceil_div_covers:
  fixes L s :: int
  assumes "0 < s"
  shows "L \<le> ((L + s - 1) div s) * s"
proof -
  have "(L + s - 1) = ((L + s - 1) div s) * s + (L + s - 1) mod s" by simp
  moreover have "(L + s - 1) mod s < s" using assms by simp
  ultimately show ?thesis by linarith
qed

subsection \<open>The starts and windows of the chunker\<close>

lemma chunk_long_text_zero_step: "chunk_long_text text n n = Inl ValueError"
  by (simp add: chunk_long_text_def py_range_def)

lemma chunk_long_text_neg_step:
  assumes "n < k"
  shows "chunk_long_text text n k = Inr []"
proof -
  let ?L = "int (length (py_split text))"
  have "(0 - ?L - (n - k) - 1) div (- (n - k)) \<le> 0"
  proof -
    have "0 - ?L - (n - k) - 1 < - (n - k)" by simp
    moreover have "0 < - (n - k)" using assms by simp
    ultimately show ?thesis
      by (smt (verit) div_pos_pos_trivial pos_imp_zdiv_neg_iff)
  qed
  then show ?thesis
    using assms by (simp add: chunk_long_text_def py_range_def Let_def)
qed

lemma chunk_long_text_pos_step:
  assumes "k < n"
  shows "chunk_long_text text n k =
    Inr (map (\<lambda>j. chunk_at (py_split text) n (int j * (n - k)))
           [0 ..< chunk_count (length (py_split text)) (n - k)])"
  using assms by (simp add: chunk_long_text_def py_range_def chunk_count_def Let_def)

lemma chunk_count_covers:
  assumes "0 < s"
  shows "len \<le> chunk_count len s * nat s"
proof -
  have "int len \<le> ((int len + s - 1) div s) * s"
    using ceil_div_covers [OF assms] .
  moreover have "0 \<le> (int len + s - 1) div s"
    using assms by (simp add: pos_imp_zdiv_nonneg_iff)
  ultimately have "int len \<le> int (chunk_count len s * nat s)"
    using assms by (simp add: chunk_count_def)
  then show ?thesis by linarith
qed

lemma chunk_count_zero_iff:
  assumes "0 < s"
  shows "chunk_count len s = 0 \<longleftrightarrow> len = 0"
proof
  assume "chunk_count len s = 0"
  then show "len = 0" using chunk_count_covers [OF assms, of len] by simp
next
  assume "len = 0"
  then show "chunk_count len s = 0"
    using assms by (simp add: chunk_count_def div_pos_pos_trivial)
qed

lemma chunk_at_tokens:
  assumes "0 \<le> n" and "0 \<le> s"
  shows "py_split (chunk_text (chunk_at (py_split text) n (int j * s))) =
         take (nat n) (drop (j * nat s) (py_split text))"
proof -
  have i: "0 \<le> int j * s" using assms by simp
  have "nat (int j * s) = j * nat s" using assms by (simp add: nat_mult_distrib)
  moreover have "list_all is_token (take (nat n) (drop (j * nat s) (py_split text)))"
    using py_split_tokens [of "text"]
    by (auto simp: list_all_iff dest: in_set_takeD in_set_dropD)
  ultimately show ?thesis
    using py_slice_window [OF i assms(1), of "py_split text"]
    by (simp add: chunk_at_def Let_def py_split_join)
qed

lemma chunk_at_position: "position (chunk_at words n i) = i"
  by (simp add: chunk_at_def Let_def)

lemma windows_take:
  assumes "0 \<le> k" and "k < n"
  shows "concat (map (\<lambda>j. take (nat (n - k)) (take (nat n) (drop (j * nat (n - k)) xs))) [0..<m])
         = take (m * nat (n - k)) xs"
proof -
  have "min (nat (n - k)) (nat n) = nat (n - k)" using assms by simp
  then show ?thesis by (simp add: concat_take_windows)
qed

lemma windows_drop:
  assumes "0 \<le> k" and "k < n"
  shows "concat (map (\<lambda>j. drop (nat k) (take (nat n) (drop (j * nat (n - k)) xs))) [0..<m])
         = take (m * nat (n - k)) (drop (nat k) xs)"
proof -
  have "nat n - nat k = nat (n - k)" using assms by simp
  then have eq: "\<And>j. drop (nat k) (take (nat n) (drop (j * nat (n - k)) xs))
              = take (nat (n - k)) (drop (j * nat (n - k)) (drop (nat k) xs))"
    by (simp add: drop_take add.commute)
  show ?thesis by (simp only: eq concat_take_windows)
qed

subsection \<open>Claims about the chunker\<close>

text \<open>
  C3 (amended). The chunker validates neither argument. It fails exactly when
  \<open>chunk_size = overlap\<close>, with the \<open>ValueError\<close> that \<open>range\<close> raises for a zero step.
  When \<open>chunk_size < overlap\<close> it returns no chunk and no error. In every other case,
  whatever the signs of the two arguments, it returns one chunk for each start
  \<open>0, step, 2 * step, ...\<close> below the number of tokens, where \<open>step = chunk_size - overlap\<close>.
\<close>

theorem chunk_long_text_failure:
  "chunk_long_text text chunk_size overlap =
     (if chunk_size = overlap then Inl ValueError
      else if chunk_size < overlap then Inr []
      else Inr (map (\<lambda>j. chunk_at (py_split text) chunk_size (int j * (chunk_size - overlap)))
                  [0 ..< chunk_count (length (py_split text)) (chunk_size - overlap)]))"
  by (simp add: chunk_long_text_zero_step chunk_long_text_neg_step chunk_long_text_pos_step)

text \<open>
  C3 as stated fails: with an overlap of zero, a negative overlap, an overlap above the
  chunk size, or a chunk size of zero, the call returns normally.
\<close>

theorem chunk_long_text_failure_counterexample:
  "chunk_long_text ''a b c'' 2 0 =
     Inr [\<lparr>chunk_text = ''a b'', position = 0, chunk_id = ''chunk_0''\<rparr>,
          \<lparr>chunk_text = ''c'', position = 2, chunk_id = ''chunk_2''\<rparr>]
   \<and> chunk_long_text ''a b c'' 2 (- 1) =
     Inr [\<lparr>chunk_text = ''a b'', position = 0, chunk_id = ''chunk_0''\<rparr>]
   \<and> chunk_long_text ''a b c'' 2 5 = Inr []
   \<and> chunk_long_text ''a b c'' 0 (- 1) =
     Inr [\<lparr>chunk_text = [], position = 0, chunk_id = ''chunk_0''\<rparr>,
          \<lparr>chunk_text = [], position = 1, chunk_id = ''chunk_1''\<rparr>,
          \<lparr>chunk_text = [], position = 2, chunk_id = ''chunk_2''\<rparr>]"
  by code_simp

text \<open>
  C4 (amended). For every text and every chunk size \<open>n\<close> and overlap \<open>k\<close> with
  \<open>0 \<le> k < n\<close>, the chunker returns chunks whose positions are the multiples of the step
  \<open>n - k\<close>, in order. Splitting each chunk's text on whitespace and keeping its first
  \<open>n - k\<close> tokens (those before the next chunk starts) gives, concatenated, the token
  sequence of the text. Dropping instead the first \<open>k\<close> tokens of every chunk gives the
  token sequence without its first \<open>k\<close> tokens.
\<close>

theorem chunk_long_text_reconstructs:
  assumes "0 \<le> overlap" and "overlap < chunk_size"
  shows "\<exists>chunks. chunk_long_text text chunk_size overlap = Inr chunks
           \<and> map position chunks =
               map (\<lambda>j. int j * (chunk_size - overlap)) [0 ..< length chunks]
           \<and> concat (map (\<lambda>c. take (nat (chunk_size - overlap)) (py_split (chunk_text c))) chunks)
               = py_split text
           \<and> concat (map (\<lambda>c. drop (nat overlap) (py_split (chunk_text c))) chunks)
               = drop (nat overlap) (py_split text)"
proof -
  let ?ws = "py_split text"
  let ?s = "chunk_size - overlap"
  let ?m = "chunk_count (length ?ws) ?s"
  let ?chunks = "map (\<lambda>j. chunk_at ?ws chunk_size (int j * ?s)) [0 ..< ?m]"
  have s: "0 < ?s" and n: "0 \<le> chunk_size" and s0: "0 \<le> ?s" using assms by simp_all
  have run: "chunk_long_text text chunk_size overlap = Inr ?chunks"
    using chunk_long_text_pos_step [OF assms(2)] .
  have cover: "length ?ws \<le> ?m * nat ?s"
    using chunk_count_covers [OF s] .
  have pos: "map position ?chunks = map (\<lambda>j. int j * ?s) [0 ..< length ?chunks]"
    by (simp add: comp_def chunk_at_position)
  have toks: "\<And>j. py_split (chunk_text (chunk_at ?ws chunk_size (int j * ?s)))
                = take (nat chunk_size) (drop (j * nat ?s) ?ws)"
    using chunk_at_tokens [OF n s0] .
  have keep: "concat (map (\<lambda>c. take (nat ?s) (py_split (chunk_text c))) ?chunks) = ?ws"
    using windows_take [OF assms, of ?ws ?m] cover by (simp add: comp_def toks)
  have "length (drop (nat overlap) ?ws) \<le> ?m * nat ?s" using cover by simp
  then have cut: "concat (map (\<lambda>c. drop (nat overlap) (py_split (chunk_text c))) ?chunks)
                  = drop (nat overlap) ?ws"
    using windows_drop [OF assms, of ?ws ?m] by (simp add: comp_def toks)
  from run pos keep cut show ?thesis by blast
qed

theorem chunk_long_text_reconstructs_witness:
  "(0::int) \<le> 3 \<and> (3::int) < 4
   \<and> (\<exists>chunks. chunk_long_text ''a b c d e'' 4 3 = Inr chunks
           \<and> map position chunks = map (\<lambda>j. int j * (4 - 3)) [0 ..< length chunks]
           \<and> concat (map (\<lambda>c. take (nat (4 - 3)) (py_split (chunk_text c))) chunks)
               = py_split ''a b c d e''
           \<and> concat (map (\<lambda>c. drop (nat 3) (py_split (chunk_text c))) chunks)
               = drop (nat 3) (py_split ''a b c d e''))"
  using chunk_long_text_reconstructs [of 3 4 "''a b c d e''"] by simp

text \<open>
  C4 as stated fails for a negative overlap, which satisfies \<open>k < n\<close>: with \<open>n = 2\<close> and
  \<open>k = - 1\<close> the step is 3, the only chunk of \<open>a b c\<close> is \<open>a b\<close>, and the token \<open>c\<close> is in no
  chunk.
\<close>

theorem chunk_long_text_reconstructs_counterexample:
  "(- 1 :: int) < 2
   \<and> chunk_long_text ''a b c'' 2 (- 1) =
     Inr [\<lparr>chunk_text = ''a b'', position = 0, chunk_id = ''chunk_0''\<rparr>]
   \<and> py_split ''a b c'' = [''a'', ''b'', ''c'']
   \<and> py_split ''a b'' = [''a'', ''b'']"
  by code_simp

text \<open>
  C8 (amended). With \<open>overlap < chunk_size\<close> (as for the default arguments), the chunker
  returns at least one chunk exactly when the text has a token, that is, a character that
  is not whitespace; for the empty text and for a text of whitespace only it returns
  zero chunks.
\<close>

theorem chunk_long_text_nonempty:
  assumes "overlap < chunk_size"
  shows "\<exists>chunks. chunk_long_text text chunk_size overlap = Inr chunks
           \<and> (chunks = []) = (py_split text = [])
           \<and> (py_split text = []) = list_all isspace text"
proof -
  have "0 < chunk_size - overlap" using assms by simp
  then show ?thesis
    using chunk_long_text_pos_step [OF assms, of "text"]
    by (simp add: chunk_count_zero_iff py_split_Nil_iff)
qed

theorem chunk_long_text_nonempty_witness:
  "(100::int) < 512
   \<and> (\<exists>chunks. chunk_long_text ''a b'' 512 100 = Inr chunks
           \<and> (chunks = []) = (py_split ''a b'' = [])
           \<and> (py_split ''a b'' = []) = list_all isspace ''a b'')"
  using chunk_long_text_nonempty [of 100 512 "''a b''"] by simp

text \<open>
  C8 as stated fails: a text of one space is not empty, and the call with the default
  arguments returns no chunk for it.
\<close>

theorem chunk_long_text_nonempty_counterexample:
  "'' '' \<noteq> [] \<and> chunk_long_text_default '' '' = Inr []"
  by code_simp

subsection \<open>The two loops of the sparse vectorizer\<close>















subsection \<open>Claims about the sparse vectorizer\<close>






subsection \<open>Claims about the memory and feedback agents\<close>

lemma reinforce_each_trail:
  "reinforce_each m clock i ft boost ids =
     m\<lparr>audit_trail := audit_trail m @
          map (\<lambda>(j, embedding_id). update_entry (clock j) embedding_id ft boost) (enumerate i ids)\<rparr>"
  by (induction ids arbitrary: m i) (simp_all add: reinforce_memory_def)

lemma store_embedding_always_true:
  "store_embedding self now_stored now_logged embedding_id patient_id dense_vector
       sparse_vector metadata =
     (self\<lparr>audit_trail := audit_trail self @
         [[(''operation'', PStr ''store_embedding''),
           (''entry'', PDict
              [(''embedding_id'', PStr embedding_id),
               (''patient_id'', PStr patient_id),
               (''dense_vector_dims'', PInt (int (length dense_vector))),
               (''sparse_vector_terms'', PInt (int (length sparse_vector))),
               (''metadata'', PDict metadata),
               (''stored_at'', PStr now_stored),
               (''reasoning'', PFmt ''EMBEDDING STORAGE REASONING'' [])]),
           (''timestamp'', PStr now_logged)]]\<rparr>,
      True)"
  by (simp add: store_embedding_def)

text \<open>
  C1 (amended). The search descriptor built by the hybrid search carries the dense weight
  0.6 and the sparse weight 0.4, which sum to 1, and no confidence field. The search
  scores no candidate: for every agent state and every query it returns the empty result
  list, and its only effect is one \<open>hybrid_search\<close> entry appended to the audit trail.
\<close>

theorem hybrid_search_weights:
  "(\<exists>w_dense w_sparse.
       map_of (search_result patient_id query_dense query_sparse filters top_k) ''dense_weight''
         = Some (PFloat w_dense)
     \<and> map_of (search_result patient_id query_dense query_sparse filters top_k) ''sparse_weight''
         = Some (PFloat w_sparse)
     \<and> w_dense = 6 / 10 \<and> w_sparse = 4 / 10 \<and> w_dense + w_sparse = 1)
   \<and> map fst (search_result patient_id query_dense query_sparse filters top_k)
       = [''patient_id'', ''query_type'', ''dense_weight'', ''sparse_weight'',
          ''filters_applied'', ''top_k'', ''results'', ''search_reasoning'']
   \<and> snd (hybrid_search self now patient_id query_dense query_sparse filters top_k) = PList []
   \<and> fst (hybrid_search self now patient_id query_dense query_sparse filters top_k) =
       self\<lparr>audit_trail := audit_trail self @
          [[(''operation'', PStr ''hybrid_search''),
            (''patient_id'', PStr patient_id),
            (''query_type'', PStr ''hybrid''),
            (''timestamp'', PStr now),
            (''top_k'', PInt top_k)]]\<rparr>"
proof (intro conjI)
  show "\<exists>w_dense w_sparse.
       map_of (search_result patient_id query_dense query_sparse filters top_k) ''dense_weight''
         = Some (PFloat w_dense)
     \<and> map_of (search_result patient_id query_dense query_sparse filters top_k) ''sparse_weight''
         = Some (PFloat w_sparse)
     \<and> w_dense = 6 / 10 \<and> w_sparse = 4 / 10 \<and> w_dense + w_sparse = 1"
    by (rule exI [of _ "6 / 10"], rule exI [of _ "4 / 10"]) (simp add: search_result_def)
qed (simp_all add: hybrid_search_def search_result_def dict_get_def)

text \<open>
  C1 as stated fails: after a record of patient \<open>p1\<close> is stored, a search of \<open>p1\<close> with
  that record's own dense vector (cosine similarity 1) and an empty sparse query returns
  no candidate, hence none with the score 0.45.
\<close>

theorem hybrid_search_weights_counterexample:
  "snd (hybrid_search
         (fst (store_embedding (MemoryAgent_init []) ''2024-01-01T00:00:00''
                 ''2024-01-01T00:00:01'' ''doc1-chunk_0'' ''p1'' [3 / 5, 4 / 5] [] []))
         ''2024-01-01T00:00:02'' ''p1'' [3 / 5, 4 / 5] [] PNone 5) = PList []"
  by (simp add: hybrid_search_def search_result_def dict_get_def)

text \<open>
  C2 (amended). The outcome maps to the delta Correct 0.2, Partial 0.1, Wrong -0.3. A
  reinforcement from feedback appends, for each record identifier in order, one audit
  entry that holds the identifier, the outcome and this delta as \<open>confidence_boost\<close>, and
  returns \<open>True\<close>; nothing else of the agent changes. No confidence of a record is read,
  written or clamped.
\<close>

theorem reinforce_memory_from_feedback_delta:
  "confidence_boost_of CORRECT = 2 / 10
   \<and> confidence_boost_of PARTIAL = 1 / 10
   \<and> confidence_boost_of WRONG = - (3 / 10)
   \<and> reinforce_memory_from_feedback self clock feedback embedding_ids =
       (self\<lparr>memory_agent := (memory_agent self)
           \<lparr>audit_trail := audit_trail (memory_agent self) @
              map (\<lambda>(j, embedding_id).
                     update_entry (clock j) embedding_id
                       (FeedbackType_value (feedback_type feedback))
                       (confidence_boost_of (feedback_type feedback)))
                  (enumerate 0 embedding_ids)\<rparr>\<rparr>,
        True)"
  by (simp add: reinforce_memory_from_feedback_def reinforce_each_trail confidence_boost_of_def
      dict_get_def)

text \<open>
  C2 as stated fails: after Correct and then Wrong on the record \<open>e1\<close>, the memory holds
  two audit entries whose only numbers are the deltas 0.2 and -0.3 (a negative value);
  there is no confidence 0.4, nor any confidence, and each call returns \<open>True\<close>.
\<close>

theorem reinforce_memory_from_feedback_delta_counterexample:
  "map (map fst) (audit_trail (memory_agent (fst (reinforce_memory_from_feedback
       (fst (reinforce_memory_from_feedback demo_agent demo_clock (demo_feedback CORRECT) [''e1'']))
       demo_clock (demo_feedback WRONG) [''e1'']))))
     = [[''embedding_id'', ''feedback_type'', ''confidence_boost'', ''operation'',
         ''timestamp'', ''reasoning''],
        [''embedding_id'', ''feedback_type'', ''confidence_boost'', ''operation'',
         ''timestamp'', ''reasoning'']]
   \<and> map (\<lambda>e. map_of e ''confidence_boost'') (audit_trail (memory_agent (fst
       (reinforce_memory_from_feedback
         (fst (reinforce_memory_from_feedback demo_agent demo_clock (demo_feedback CORRECT) [''e1'']))
         demo_clock (demo_feedback WRONG) [''e1'']))))
     = [Some (PFloat (2 / 10)), Some (PFloat (- (3 / 10)))]
   \<and> snd (reinforce_memory_from_feedback
         (fst (reinforce_memory_from_feedback demo_agent demo_clock (demo_feedback CORRECT) [''e1'']))
         demo_clock (demo_feedback WRONG) [''e1'']) = True"
  by code_simp

text \<open>
  C6. The write path checks no dimension: a dense vector of length 1, against the
  configured 3072, is accepted with the result \<open>True\<close>, and the audit entry records the
  length 1.
\<close>

theorem store_embedding_dimension_unchecked:
  "int (length [1 :: rat]) \<noteq> 3072
   \<and> store_embedding (MemoryAgent_init []) ''2024-01-01T00:00:00'' ''2024-01-01T00:00:01''
        ''doc1-chunk_0'' ''p1'' [1] [] [] =
     ((MemoryAgent_init [])\<lparr>audit_trail :=
         [[(''operation'', PStr ''store_embedding''),
           (''entry'', PDict
              [(''embedding_id'', PStr ''doc1-chunk_0''),
               (''patient_id'', PStr ''p1''),
               (''dense_vector_dims'', PInt 1),
               (''sparse_vector_terms'', PInt 0),
               (''metadata'', PDict []),
               (''stored_at'', PStr ''2024-01-01T00:00:00''),
               (''reasoning'', PFmt ''EMBEDDING STORAGE REASONING'' [])]),
           (''timestamp'', PStr ''2024-01-01T00:00:01'')]]\<rparr>,
      True)"
  by (simp add: store_embedding_always_true MemoryAgent_init_def)

text \<open>
  C9 (amended). Every call of the memory agent's reinforcement returns \<open>True\<close> and appends
  exactly one audit entry, leaving all earlier entries (and every other field of the
  agent) unchanged. The entry holds, in this order, the keys \<open>embedding_id\<close>,
  \<open>feedback_type\<close>, \<open>confidence_boost\<close>, \<open>operation\<close>, \<open>timestamp\<close> and \<open>reasoning\<close>: the
  record identifier, the outcome, the delta and the clock's reading.
\<close>

theorem reinforce_memory_appends:
  "reinforce_memory self now embedding_id ft boost =
     (self\<lparr>audit_trail := audit_trail self @ [update_entry now embedding_id ft boost]\<rparr>, True)
   \<and> length (audit_trail (fst (reinforce_memory self now embedding_id ft boost)))
       = Suc (length (audit_trail self))
   \<and> take (length (audit_trail self))
        (audit_trail (fst (reinforce_memory self now embedding_id ft boost)))
       = audit_trail self
   \<and> map fst (last (audit_trail (fst (reinforce_memory self now embedding_id ft boost))))
       = [''embedding_id'', ''feedback_type'', ''confidence_boost'', ''operation'',
          ''timestamp'', ''reasoning'']
   \<and> map_of (last (audit_trail (fst (reinforce_memory self now embedding_id ft boost))))
         ''embedding_id'' = Some (PStr embedding_id)
   \<and> map_of (last (audit_trail (fst (reinforce_memory self now embedding_id ft boost))))
         ''feedback_type'' = Some (PStr ft)
   \<and> map_of (last (audit_trail (fst (reinforce_memory self now embedding_id ft boost))))
         ''confidence_boost'' = Some (PFloat boost)
   \<and> map_of (last (audit_trail (fst (reinforce_memory self now embedding_id ft boost))))
         ''timestamp'' = Some (PStr now)"
  by (simp add: reinforce_memory_def update_entry_def)

text \<open>
  C9 as stated fails: the appended entry has neither an old nor a new confidence.
\<close>

theorem reinforce_memory_appends_counterexample:
  "map fst (last (audit_trail (fst (reinforce_memory (MemoryAgent_init [])
       ''2024-01-01T00:00:00'' ''doc1-chunk_0'' ''correct'' (2 / 10)))))
     = [''embedding_id'', ''feedback_type'', ''confidence_boost'', ''operation'',
        ''timestamp'', ''reasoning'']
   \<and> map_of (last (audit_trail (fst (reinforce_memory (MemoryAgent_init [])
       ''2024-01-01T00:00:00'' ''doc1-chunk_0'' ''correct'' (2 / 10)))))
       ''old_confidence'' = None
   \<and> map_of (last (audit_trail (fst (reinforce_memory (MemoryAgent_init [])
       ''2024-01-01T00:00:00'' ''doc1-chunk_0'' ''correct'' (2 / 10)))))
       ''new_confidence'' = None"
  by (simp add: reinforce_memory_def update_entry_def MemoryAgent_init_def)

end
